theory Spec2Isabelle
  imports Main
begin

section \<open>The portal launcher of eos-dropbox-app (portallauncher.py)\<close>

text \<open>
  \<^verbatim>\<open>PortalLauncher\<close> opens a file or a URI through the OpenURI desktop portal. It
  talks to three collaborators that are not part of the program: the URL parser of the
  Python standard library, the file system (\<^verbatim>\<open>os.open\<close>) and the portal behind
  the session bus. The parser's result is an input of the model; the file system and the
  portal are an environment of reply functions; everything the launcher does to them is
  recorded, in order, in a trace of events.
\<close>

subsection \<open>Data\<close>

text \<open>The fields of \<^verbatim>\<open>urlparse(target)\<close> that the launcher reads.\<close>

record parsed_url =
  scheme :: string
  path :: string
  geturl :: string

type_synonym fd = nat

text \<open>
  A request handle as Python sees it: \<^verbatim>\<open>None\<close> or a string. \<^verbatim>\<open>run\<close> tests it
  by truth value, so \<^verbatim>\<open>None\<close> and the empty string both count as no handle.
\<close>

type_synonym handle = "string option"

definition truthy :: "handle \<Rightarrow> bool" where
  "truthy h = (case h of None \<Rightarrow> False | Some s \<Rightarrow> s \<noteq> [])"

text \<open>A \<^verbatim>\<open>GLib.GError\<close>: error domain, code and message.\<close>

record gerror =
  domain :: string
  code :: nat
  message :: string

definition dbus_error_quark :: string where
  "dbus_error_quark = ''g-dbus-error-quark''"

definition UNKNOWN_METHOD :: nat where
  "UNKNOWN_METHOD = 19"

definition matches :: "gerror \<Rightarrow> string \<Rightarrow> nat \<Rightarrow> bool" where
  "matches e d c = (domain e = d \<and> code e = c)"

text \<open>What \<^verbatim>\<open>os.open\<close> raises: \<^verbatim>\<open>FileNotFoundError\<close> (with its strerror) or another
  \<^verbatim>\<open>OSError\<close>.\<close>

datatype os_error = FileNotFoundError string | OtherOSError string

text \<open>The exceptions that leave \<^verbatim>\<open>run\<close>.\<close>

datatype exn = OSErr os_error | GErr gerror

datatype log_level = INFO | WARNING | ERROR

text \<open>
  A signal subscription on the bus connection, with the arguments \<^verbatim>\<open>run\<close> gives to
  \<^verbatim>\<open>signal_subscribe\<close>: the four filters and the user data handed to the handler
  (the callback and its data). The handler is always \<^verbatim>\<open>_response_received\<close>.
\<close>

record ('cb, 'd) subscription =
  sub_sender :: string
  sub_interface :: string
  sub_member :: string
  sub_object_path :: string
  sub_callback :: "'cb option"
  sub_data :: 'd

text \<open>
  The trace. A call to a collaborator is recorded with its reply, so the trace tells
  which remote call returned which handle.
\<close>

datatype ('cb, 'd) event =
    Log log_level string
  | OsOpen string "os_error + fd"
  | OpenFile fd "gerror + handle"
  | OpenURI string "gerror + handle"
  | SignalSubscribe "('cb, 'd) subscription"
  | Callback 'cb 'd

text \<open>The environment: the reply of each collaborator to each call.\<close>

record env =
  os_open :: "string \<Rightarrow> os_error + fd"
  proxy_OpenFile :: "fd \<Rightarrow> gerror + handle"
  proxy_OpenURI :: "string \<Rightarrow> gerror + handle"

text \<open>The launcher object, with the fields \<^verbatim>\<open>__init__\<close> caches.\<close>

record ('cb, 'd) launcher =
  is_local_file :: bool
  lpath :: string
  url :: string
  callback :: "'cb option"
  data :: 'd

subsection \<open>Operations\<close>

text \<open>
  \<^verbatim>\<open>__init__\<close>, from the parsed target. (Getting the session bus and the proxy has no
  part in what follows.)
\<close>

definition init :: "parsed_url \<Rightarrow> 'cb option \<Rightarrow> 'd \<Rightarrow> ('cb, 'd) launcher" where
  "init parsed cb d =
     \<lparr> is_local_file = (scheme parsed = [] \<or> scheme parsed = ''file''),
       lpath = path parsed,
       url = geturl parsed,
       callback = cb,
       data = d \<rparr>"

text \<open>
  \<^verbatim>\<open>_run_open_file_method\<close>: the events and either the exception raised or the handle
  returned. The descriptor goes to the portal inside a \<^verbatim>\<open>Gio.UnixFDList\<close>; the method
  has no \<^verbatim>\<open>os.close\<close> of its own.
\<close>

definition run_open_file_method ::
  "('cb, 'd) launcher \<Rightarrow> env \<Rightarrow> ('cb, 'd) event list \<times> (exn + handle)" where
  "run_open_file_method l env =
     (let ev0 = [Log INFO (''Opening path at '' @ lpath l @ '' (method: OpenURI.OpenFile)...'')];
          opened = os_open env (lpath l)
      in case opened of
           Inl (FileNotFoundError strerror) \<Rightarrow>
             (ev0 @ [OsOpen (lpath l) opened,
                     Log ERROR (''Can't find path at '' @ lpath l @ '': '' @ strerror)],
              Inl (OSErr (FileNotFoundError strerror)))
         | Inl (OtherOSError s) \<Rightarrow>
             (ev0 @ [OsOpen (lpath l) opened], Inl (OSErr (OtherOSError s)))
         | Inr fd \<Rightarrow>
             (let reply = proxy_OpenFile env fd
              in case reply of
                   Inl e \<Rightarrow> (ev0 @ [OsOpen (lpath l) opened, OpenFile fd reply], Inl (GErr e))
                 | Inr h \<Rightarrow> (ev0 @ [OsOpen (lpath l) opened, OpenFile fd reply], Inr h)))"

text \<open>\<^verbatim>\<open>_run_open_uri_method\<close>.\<close>

definition run_open_uri_method ::
  "('cb, 'd) launcher \<Rightarrow> env \<Rightarrow> ('cb, 'd) event list \<times> (exn + handle)" where
  "run_open_uri_method l env =
     (let uri = (if \<not> is_local_file l then url l else ''file://'' @ lpath l);
          ev0 = [Log INFO (''Opening URI at '' @ uri @ '' (method: OpenURI.OpenURI)...'')];
          reply = proxy_OpenURI env uri
      in case reply of
           Inl e \<Rightarrow> (ev0 @ [OpenURI uri reply], Inl (GErr e))
         | Inr h \<Rightarrow> (ev0 @ [OpenURI uri reply], Inr h))"

text \<open>The subscription \<^verbatim>\<open>run\<close> makes for a handle.\<close>

definition response_subscription ::
  "('cb, 'd) launcher \<Rightarrow> string \<Rightarrow> ('cb, 'd) subscription" where
  "response_subscription l h =
     \<lparr> sub_sender = ''org.freedesktop.portal.Desktop'',
       sub_interface = ''org.freedesktop.portal.Request'',
       sub_member = ''Response'',
       sub_object_path = h,
       sub_callback = callback l,
       sub_data = data l \<rparr>"

text \<open>
  \<^verbatim>\<open>run\<close>, on a bus connection that holds the subscriptions \<open>subs\<close>. It gives the
  trace, the subscriptions afterwards, and \<open>Inl\<close> the exception that left it or
  \<open>Inr ()\<close> when it returned.
\<close>

definition run ::
  "('cb, 'd) launcher \<Rightarrow> env \<Rightarrow> ('cb, 'd) subscription list \<Rightarrow>
     ('cb, 'd) event list \<times> ('cb, 'd) subscription list \<times> (exn + unit)" where
  "run l env subs =
     (let (ev1, r1) =
            (if is_local_file l then
               (let (evf, rf) = run_open_file_method l env;
                    ev = Log INFO ''Detected file/URI pointing to a local path. Using OpenFile method...'' # evf
                in case rf of
                     Inr h \<Rightarrow> (ev, Inr h)
                   | Inl (GErr e) \<Rightarrow>
                       if \<not> matches e dbus_error_quark UNKNOWN_METHOD
                       then (ev @ [Log ERROR (''Could not open file at '' @ lpath l @ '': '' @ message e)],
                             Inl (GErr e))
                       else (ev @ [Log WARNING ''OpenFile method not available, falling back to OpenURI...''],
                             Inr None)
                   | Inl (OSErr x) \<Rightarrow> (ev, Inl (OSErr x)))
             else ([], Inr None))
      in case r1 of
           Inl x \<Rightarrow> (ev1, subs, Inl x)
         | Inr handle1 \<Rightarrow>
             (let (ev2, r2) =
                    (if \<not> truthy handle1 then run_open_uri_method l env else ([], Inr handle1))
              in case r2 of
                   Inl x \<Rightarrow> (ev1 @ ev2, subs, Inl x)
                 | Inr handle2 \<Rightarrow>
                     if truthy handle2
                     then (let s = response_subscription l (the handle2)
                           in (ev1 @ ev2 @ [SignalSubscribe s], subs @ [s], Inr ()))
                     else (ev1 @ ev2 @ [Log WARNING ''Could not get a handle from the OpenURI portal!''],
                           subs, Inr ())))"

definition run_trace ::
  "('cb, 'd) launcher \<Rightarrow> env \<Rightarrow> ('cb, 'd) subscription list \<Rightarrow> ('cb, 'd) event list" where
  "run_trace l env subs = fst (run l env subs)"

definition run_subs ::
  "('cb, 'd) launcher \<Rightarrow> env \<Rightarrow> ('cb, 'd) subscription list \<Rightarrow> ('cb, 'd) subscription list" where
  "run_subs l env subs = fst (snd (run l env subs))"

definition run_outcome ::
  "('cb, 'd) launcher \<Rightarrow> env \<Rightarrow> ('cb, 'd) subscription list \<Rightarrow> exn + unit" where
  "run_outcome l env subs = snd (snd (run l env subs))"

subsection \<open>The Response signal\<close>

text \<open>
  \<^verbatim>\<open>_response_received\<close>. Of its arguments it reads the parameters of the signal (the
  response code and the results) and the user data (callback and data).
\<close>

type_synonym results = "(string \<times> string) list"

definition response_received ::
  "int \<times> results \<Rightarrow> 'cb option \<Rightarrow> 'd \<Rightarrow> ('cb, 'd) event list" where
  "response_received params cb d =
     (let response_code = fst params
      in (if response_code = 0 then [Log INFO ''OpenURI portal: success!'']
          else if response_code = 1 then [Log INFO ''OpenURI portal: cancelled by the user'']
          else if response_code = 2 then [Log WARNING ''OpenURI portal: An error happened'']
          else [])
         @ (case cb of None \<Rightarrow> [] | Some c \<Rightarrow> [Callback c d]))"

text \<open>A signal that arrives on the bus connection.\<close>

record signal =
  sig_sender :: string
  sig_object_path :: string
  sig_interface :: string
  sig_member :: string
  sig_params :: "int \<times> results"

text \<open>
  The dispatch of GDBus: the connection hands a signal to every subscription whose
  filters it passes. Nothing in the launcher calls \<^verbatim>\<open>signal_unsubscribe\<close>, so the
  subscriptions are the same for every signal.
\<close>

definition sub_matches :: "('cb, 'd) subscription \<Rightarrow> signal \<Rightarrow> bool" where
  "sub_matches s sg =
     (sub_sender s = sig_sender sg \<and> sub_interface s = sig_interface sg \<and>
      sub_member s = sig_member sg \<and> sub_object_path s = sig_object_path sg)"

fun deliver :: "('cb, 'd) subscription list \<Rightarrow> signal \<Rightarrow> ('cb, 'd) event list" where
  "deliver [] sg = []"
| "deliver (s # ss) sg =
     (if sub_matches s sg then response_received (sig_params sg) (sub_callback s) (sub_data s)
      else []) @ deliver ss sg"

fun deliver_all :: "('cb, 'd) subscription list \<Rightarrow> signal list \<Rightarrow> ('cb, 'd) event list" where
  "deliver_all subs [] = []"
| "deliver_all subs (sg # sgs) = deliver subs sg @ deliver_all subs sgs"

text \<open>The Response signal of the request at \<open>h\<close>.\<close>

definition response_signal :: "string \<Rightarrow> int \<Rightarrow> results \<Rightarrow> signal" where
  "response_signal h c r =
     \<lparr> sig_sender = ''org.freedesktop.portal.Desktop'',
       sig_object_path = h,
       sig_interface = ''org.freedesktop.portal.Request'',
       sig_member = ''Response'',
       sig_params = (c, r) \<rparr>"

subsection \<open>Reading a trace\<close>

fun is_open_file :: "('cb, 'd) event \<Rightarrow> bool" where
  "is_open_file (OpenFile _ _) = True"
| "is_open_file _ = False"

fun is_open_uri :: "('cb, 'd) event \<Rightarrow> bool" where
  "is_open_uri (OpenURI _ _) = True"
| "is_open_uri _ = False"

fun is_os_open :: "('cb, 'd) event \<Rightarrow> bool" where
  "is_os_open (OsOpen _ _) = True"
| "is_os_open _ = False"

fun is_subscribe :: "('cb, 'd) event \<Rightarrow> bool" where
  "is_subscribe (SignalSubscribe _) = True"
| "is_subscribe _ = False"

fun is_callback :: "('cb, 'd) event \<Rightarrow> bool" where
  "is_callback (Callback _ _) = True"
| "is_callback _ = False"

definition is_remote_call :: "('cb, 'd) event \<Rightarrow> bool" where
  "is_remote_call e = (is_open_file e \<or> is_open_uri e)"

definition remote_calls :: "('cb, 'd) event list \<Rightarrow> ('cb, 'd) event list" where
  "remote_calls tr = filter is_remote_call tr"

text \<open>The file-handle method failed because the portal does not know it.\<close>

fun file_method_unknown :: "('cb, 'd) event \<Rightarrow> bool" where
  "file_method_unknown (OpenFile _ (Inl e)) = matches e dbus_error_quark UNKNOWN_METHOD"
| "file_method_unknown _ = False"

text \<open>A remote call that came back with no handle (\<^verbatim>\<open>None\<close> or the empty string).\<close>

fun file_method_no_handle :: "('cb, 'd) event \<Rightarrow> bool" where
  "file_method_no_handle (OpenFile _ (Inr h)) = (\<not> truthy h)"
| "file_method_no_handle _ = False"

fun uri_method_no_handle :: "('cb, 'd) event \<Rightarrow> bool" where
  "uri_method_no_handle (OpenURI _ (Inr h)) = (\<not> truthy h)"
| "uri_method_no_handle _ = False"

definition remote_call_no_handle :: "('cb, 'd) event \<Rightarrow> bool" where
  "remote_call_no_handle e = (file_method_no_handle e \<or> uri_method_no_handle e)"

text \<open>A remote call that came back with the handle \<open>h\<close>.\<close>

fun remote_call_returned :: "string \<Rightarrow> ('cb, 'd) event \<Rightarrow> bool" where
  "remote_call_returned h (OpenFile _ (Inr r)) = (r = Some h)"
| "remote_call_returned h (OpenURI _ (Inr r)) = (r = Some h)"
| "remote_call_returned h _ = False"

text \<open>The callback invocations among the events that a list of signals causes.\<close>

definition callbacks_fired ::
  "('cb, 'd) subscription list \<Rightarrow> signal list \<Rightarrow> ('cb, 'd) event list" where
  "callbacks_fired subs sgs = filter is_callback (deliver_all subs sgs)"

text \<open>The signal is the Response of the request at \<open>h\<close>, sent by the portal.\<close>

definition is_response_for :: "string \<Rightarrow> signal \<Rightarrow> bool" where
  "is_response_for h sg =
     (sig_sender sg = ''org.freedesktop.portal.Desktop'' \<and>
      sig_interface sg = ''org.freedesktop.portal.Request'' \<and>
      sig_member sg = ''Response'' \<and>
      sig_object_path sg = h)"

subsection \<open>Scenarios\<close>

text \<open>
  Concrete targets, as the parser returns them, and concrete environments: a portal that
  knows \<^verbatim>\<open>OpenFile\<close>, an old one that does not, one that refuses every call, and two
  that return empty handles. The callback and its data are those of \<^verbatim>\<open>xdg-open.py\<close>.
\<close>

definition report_pdf :: parsed_url where
  "report_pdf =
     \<lparr> scheme = [], path = ''/home/user/Documents/report.pdf'',
       geturl = ''/home/user/Documents/report.pdf'' \<rparr>"

definition example_page :: parsed_url where
  "example_page =
     \<lparr> scheme = ''https'', path = ''/page'', geturl = ''https://example.com/page'' \<rparr>"

definition missing_file :: parsed_url where
  "missing_file =
     \<lparr> scheme = [], path = ''/missing/file.txt'', geturl = ''/missing/file.txt'' \<rparr>"

definition request_42 :: string where
  "request_42 = ''/org/freedesktop/portal/desktop/request/42''"

definition unknown_method_error :: gerror where
  "unknown_method_error =
     \<lparr> domain = dbus_error_quark, code = UNKNOWN_METHOD, message = ''No such method OpenFile'' \<rparr>"

definition access_denied_error :: gerror where
  "access_denied_error =
     \<lparr> domain = dbus_error_quark, code = 9, message = ''Access denied'' \<rparr>"

definition local_files :: "string \<Rightarrow> os_error + fd" where
  "local_files p =
     (if p = ''/home/user/Documents/report.pdf'' then Inr 3
      else Inl (FileNotFoundError ''No such file or directory''))"

definition new_portal :: env where
  "new_portal =
     \<lparr> os_open = local_files,
       proxy_OpenFile = (\<lambda>fd. Inr (Some request_42)),
       proxy_OpenURI = (\<lambda>u. Inr (Some request_42)) \<rparr>"

definition old_portal :: env where
  "old_portal =
     \<lparr> os_open = local_files,
       proxy_OpenFile = (\<lambda>fd. Inl unknown_method_error),
       proxy_OpenURI = (\<lambda>u. Inr (Some request_42)) \<rparr>"

definition refusing_portal :: env where
  "refusing_portal =
     \<lparr> os_open = local_files,
       proxy_OpenFile = (\<lambda>fd. Inl access_denied_error),
       proxy_OpenURI = (\<lambda>u. Inl access_denied_error) \<rparr>"

definition old_refusing_portal :: env where
  "old_refusing_portal =
     \<lparr> os_open = local_files,
       proxy_OpenFile = (\<lambda>fd. Inl unknown_method_error),
       proxy_OpenURI = (\<lambda>u. Inl unknown_method_error) \<rparr>"

definition file_handleless_portal :: env where
  "file_handleless_portal =
     \<lparr> os_open = local_files,
       proxy_OpenFile = (\<lambda>fd. Inr (Some [])),
       proxy_OpenURI = (\<lambda>u. Inr (Some request_42)) \<rparr>"

definition handleless_portal :: env where
  "handleless_portal =
     \<lparr> os_open = local_files,
       proxy_OpenFile = (\<lambda>fd. Inr (Some [])),
       proxy_OpenURI = (\<lambda>u. Inr (Some [])) \<rparr>"

text \<open>
  A file whose name holds a \<^verbatim>\<open>#\<close>. \<^verbatim>\<open>urlparse('/home/user/Documents/report#1.pdf')\<close>
  has no scheme, takes \<^verbatim>\<open>1.pdf\<close> for the fragment and leaves
  \<^verbatim>\<open>/home/user/Documents/report\<close> as the path; \<^verbatim>\<open>geturl()\<close> puts the target together
  again. In \<open>hash_files\<close> the file exists and nothing exists under the shortened name.
\<close>

definition report_1_pdf :: parsed_url where
  "report_1_pdf =
     \<lparr> scheme = [], path = ''/home/user/Documents/report'',
       geturl = ''/home/user/Documents/report#1.pdf'' \<rparr>"

definition hash_files :: "string \<Rightarrow> os_error + fd" where
  "hash_files p =
     (if p = ''/home/user/Documents/report#1.pdf'' then Inr 4
      else Inl (FileNotFoundError ''No such file or directory''))"

definition hash_portal :: env where
  "hash_portal =
     \<lparr> os_open = hash_files,
       proxy_OpenFile = (\<lambda>fd. Inr (Some request_42)),
       proxy_OpenURI = (\<lambda>u. Inr (Some request_42)) \<rparr>"

definition done_callback :: string where
  "done_callback = ''done_callback''"

definition mainloop :: string where
  "mainloop = ''mainloop''"

section \<open>Properties\<close>

subsection \<open>The paths through \<^verbatim>\<open>run\<close>\<close>

lemmas run_unfold = run_def run_open_file_method_def run_open_uri_method_def Let_def

lemma truthy_simps [simp]:
  "\<not> truthy None" "truthy (Some s) = (s \<noteq> [])"
  by (simp_all add: truthy_def)

text \<open>
  Every execution of \<^verbatim>\<open>run\<close> takes one of nine paths; each is given with what the
  environment replied and with the whole result.
\<close>

lemma run_cases:
  fixes l :: "('cb, 'd) launcher"
  obtains
    (remote_uri_error) e where
      "\<not> is_local_file l" "proxy_OpenURI env (url l) = Inl e"
      "run l env subs =
         ([Log INFO (''Opening URI at '' @ url l @ '' (method: OpenURI.OpenURI)...''),
           OpenURI (url l) (Inl e)], subs, Inl (GErr e))"
  | (remote_uri_handle) h where
      "\<not> is_local_file l" "proxy_OpenURI env (url l) = Inr h" "truthy h"
      "run l env subs =
         ([Log INFO (''Opening URI at '' @ url l @ '' (method: OpenURI.OpenURI)...''),
           OpenURI (url l) (Inr h),
           SignalSubscribe (response_subscription l (the h))],
          subs @ [response_subscription l (the h)], Inr ())"
  | (remote_uri_no_handle) h where
      "\<not> is_local_file l" "proxy_OpenURI env (url l) = Inr h" "\<not> truthy h"
      "run l env subs =
         ([Log INFO (''Opening URI at '' @ url l @ '' (method: OpenURI.OpenURI)...''),
           OpenURI (url l) (Inr h),
           Log WARNING ''Could not get a handle from the OpenURI portal!''],
          subs, Inr ())"
  | (open_failed) x where
      "is_local_file l" "os_open env (lpath l) = Inl x"
      "run l env subs =
         ([Log INFO ''Detected file/URI pointing to a local path. Using OpenFile method...'',
           Log INFO (''Opening path at '' @ lpath l @ '' (method: OpenURI.OpenFile)...''),
           OsOpen (lpath l) (Inl x)]
          @ (case x of FileNotFoundError s \<Rightarrow>
                 [Log ERROR (''Can't find path at '' @ lpath l @ '': '' @ s)]
             | OtherOSError s \<Rightarrow> []),
          subs, Inl (OSErr x))"
  | (file_error) fd e where
      "is_local_file l" "os_open env (lpath l) = Inr fd" "proxy_OpenFile env fd = Inl e"
      "\<not> matches e dbus_error_quark UNKNOWN_METHOD"
      "run l env subs =
         ([Log INFO ''Detected file/URI pointing to a local path. Using OpenFile method...'',
           Log INFO (''Opening path at '' @ lpath l @ '' (method: OpenURI.OpenFile)...''),
           OsOpen (lpath l) (Inr fd),
           OpenFile fd (Inl e),
           Log ERROR (''Could not open file at '' @ lpath l @ '': '' @ message e)],
          subs, Inl (GErr e))"
  | (file_handle) fd h where
      "is_local_file l" "os_open env (lpath l) = Inr fd" "proxy_OpenFile env fd = Inr h"
      "truthy h"
      "run l env subs =
         ([Log INFO ''Detected file/URI pointing to a local path. Using OpenFile method...'',
           Log INFO (''Opening path at '' @ lpath l @ '' (method: OpenURI.OpenFile)...''),
           OsOpen (lpath l) (Inr fd),
           OpenFile fd (Inr h),
           SignalSubscribe (response_subscription l (the h))],
          subs @ [response_subscription l (the h)], Inr ())"
  | (fallback_error) fd r e where
      "is_local_file l" "os_open env (lpath l) = Inr fd" "proxy_OpenFile env fd = r"
      "(\<exists>e1. r = Inl e1 \<and> matches e1 dbus_error_quark UNKNOWN_METHOD) \<or>
       (\<exists>h1. r = Inr h1 \<and> \<not> truthy h1)"
      "proxy_OpenURI env (''file://'' @ lpath l) = Inl e"
      "run l env subs =
         ([Log INFO ''Detected file/URI pointing to a local path. Using OpenFile method...'',
           Log INFO (''Opening path at '' @ lpath l @ '' (method: OpenURI.OpenFile)...''),
           OsOpen (lpath l) (Inr fd),
           OpenFile fd r]
          @ (case r of Inl e1 \<Rightarrow>
                 [Log WARNING ''OpenFile method not available, falling back to OpenURI...'']
             | Inr h1 \<Rightarrow> [])
          @ [Log INFO (''Opening URI at '' @ ''file://'' @ lpath l @ '' (method: OpenURI.OpenURI)...''),
             OpenURI (''file://'' @ lpath l) (Inl e)],
          subs, Inl (GErr e))"
  | (fallback_handle) fd r h where
      "is_local_file l" "os_open env (lpath l) = Inr fd" "proxy_OpenFile env fd = r"
      "(\<exists>e1. r = Inl e1 \<and> matches e1 dbus_error_quark UNKNOWN_METHOD) \<or>
       (\<exists>h1. r = Inr h1 \<and> \<not> truthy h1)"
      "proxy_OpenURI env (''file://'' @ lpath l) = Inr h" "truthy h"
      "run l env subs =
         ([Log INFO ''Detected file/URI pointing to a local path. Using OpenFile method...'',
           Log INFO (''Opening path at '' @ lpath l @ '' (method: OpenURI.OpenFile)...''),
           OsOpen (lpath l) (Inr fd),
           OpenFile fd r]
          @ (case r of Inl e1 \<Rightarrow>
                 [Log WARNING ''OpenFile method not available, falling back to OpenURI...'']
             | Inr h1 \<Rightarrow> [])
          @ [Log INFO (''Opening URI at '' @ ''file://'' @ lpath l @ '' (method: OpenURI.OpenURI)...''),
             OpenURI (''file://'' @ lpath l) (Inr h),
             SignalSubscribe (response_subscription l (the h))],
          subs @ [response_subscription l (the h)], Inr ())"
  | (fallback_no_handle) fd r h where
      "is_local_file l" "os_open env (lpath l) = Inr fd" "proxy_OpenFile env fd = r"
      "(\<exists>e1. r = Inl e1 \<and> matches e1 dbus_error_quark UNKNOWN_METHOD) \<or>
       (\<exists>h1. r = Inr h1 \<and> \<not> truthy h1)"
      "proxy_OpenURI env (''file://'' @ lpath l) = Inr h" "\<not> truthy h"
      "run l env subs =
         ([Log INFO ''Detected file/URI pointing to a local path. Using OpenFile method...'',
           Log INFO (''Opening path at '' @ lpath l @ '' (method: OpenURI.OpenFile)...''),
           OsOpen (lpath l) (Inr fd),
           OpenFile fd r]
          @ (case r of Inl e1 \<Rightarrow>
                 [Log WARNING ''OpenFile method not available, falling back to OpenURI...'']
             | Inr h1 \<Rightarrow> [])
          @ [Log INFO (''Opening URI at '' @ ''file://'' @ lpath l @ '' (method: OpenURI.OpenURI)...''),
             OpenURI (''file://'' @ lpath l) (Inr h),
             Log WARNING ''Could not get a handle from the OpenURI portal!''],
          subs, Inr ())"
proof (cases "is_local_file l")
  case False
  show ?thesis
  proof (cases "proxy_OpenURI env (url l)")
    case (Inl e)
    with False show ?thesis by (intro remote_uri_error[of e]) (simp_all add: run_unfold)
  next
    case (Inr h)
    show ?thesis
    proof (cases "truthy h")
      case True
      with \<open>\<not> is_local_file l\<close> Inr show ?thesis
        by (intro remote_uri_handle[of h]) (simp_all add: run_unfold)
    next
      case False
      with \<open>\<not> is_local_file l\<close> Inr show ?thesis
        by (intro remote_uri_no_handle[of h]) (simp_all add: run_unfold)
    qed
  qed
next
  case True
  show ?thesis
  proof (cases "os_open env (lpath l)")
    case (Inl x)
    with True show ?thesis
      by (intro open_failed[of x]) (cases x; simp add: run_unfold)+
  next
    case opened: (Inr fd)
    let ?u = "proxy_OpenURI env (''file://'' @ lpath l)"
    show ?thesis
    proof (cases "proxy_OpenFile env fd")
      case (Inl e)
      show ?thesis
      proof (cases "matches e dbus_error_quark UNKNOWN_METHOD")
        case False
        with True opened Inl show ?thesis
          by (intro file_error[of fd e]) (simp_all add: run_unfold)
      next
        case unknown: True
        show ?thesis
        proof (cases ?u)
          case e2: (Inl e')
          with True opened Inl unknown show ?thesis
            by (intro fallback_error[of fd "Inl e" e']) (simp_all add: run_unfold)
        next
          case h2: (Inr h')
          show ?thesis
          proof (cases "truthy h'")
            case True
            with \<open>is_local_file l\<close> opened Inl unknown h2 show ?thesis
              by (intro fallback_handle[of fd "Inl e" h']) (simp_all add: run_unfold)
          next
            case False
            with \<open>is_local_file l\<close> opened Inl unknown h2 show ?thesis
              by (intro fallback_no_handle[of fd "Inl e" h']) (simp_all add: run_unfold)
          qed
        qed
      qed
    next
      case (Inr h)
      show ?thesis
      proof (cases "truthy h")
        case True
        with \<open>is_local_file l\<close> opened Inr show ?thesis
          by (intro file_handle[of fd h]) (simp_all add: run_unfold)
      next
        case empty: False
        show ?thesis
        proof (cases ?u)
          case e2: (Inl e')
          with True opened Inr empty show ?thesis
            by (intro fallback_error[of fd "Inr h" e']) (simp_all add: run_unfold)
        next
          case h2: (Inr h')
          show ?thesis
          proof (cases "truthy h'")
            case True
            with \<open>is_local_file l\<close> opened Inr empty h2 show ?thesis
              by (intro fallback_handle[of fd "Inr h" h']) (simp_all add: run_unfold)
          next
            case False
            with \<open>is_local_file l\<close> opened Inr empty h2 show ?thesis
              by (intro fallback_no_handle[of fd "Inr h" h']) (simp_all add: run_unfold)
          qed
        qed
      qed
    qed
  qed
qed

subsection \<open>Reading results, signals on one subscription\<close>

lemmas trace_simps = run_trace_def run_subs_def run_outcome_def remote_calls_def is_remote_call_def

lemmas scenario_defs = report_pdf_def example_page_def missing_file_def request_42_def
  unknown_method_error_def access_denied_error_def local_files_def new_portal_def old_portal_def
  refusing_portal_def old_refusing_portal_def file_handleless_portal_def handleless_portal_def
  done_callback_def mainloop_def dbus_error_quark_def UNKNOWN_METHOD_def matches_def

lemma deliver_all_no_subs [simp]: "deliver_all [] sgs = []"
  by (induction sgs) simp_all

lemma sub_matches_response_subscription [simp]:
  "sub_matches (response_subscription l h) sg = is_response_for h sg"
  by (auto simp: sub_matches_def response_subscription_def is_response_for_def)

lemma response_subscription_sel [simp]:
  "sub_callback (response_subscription l h) = callback l"
  "sub_data (response_subscription l h) = data l"
  "sub_object_path (response_subscription l h) = h"
  by (simp_all add: response_subscription_def)

lemma callbacks_of_response_received:
  "filter is_callback (response_received p cb d) =
     (case cb of None \<Rightarrow> [] | Some c \<Rightarrow> [Callback c d])"
  by (simp add: response_received_def Let_def split: option.split)

text \<open>
  One subscription made by \<^verbatim>\<open>run\<close>, any list of signals: the callback (when there is
  one) is invoked once for each signal that is the Response of that request, in order.
\<close>

lemma callbacks_fired_one_subscription:
  "callbacks_fired [response_subscription l h] sgs =
     (case callback l of
        None \<Rightarrow> []
      | Some c \<Rightarrow> replicate (length (filter (is_response_for h) sgs)) (Callback c (data l)))"
proof (induction sgs)
  case Nil
  show ?case by (simp add: callbacks_fired_def split: option.split)
next
  case (Cons sg sgs)
  then show ?case
    by (simp add: callbacks_fired_def callbacks_of_response_received split: option.splits)
qed

subsection \<open>The completion callback\<close>

text \<open>
  C1, as stated, fails: the callback is not limited to one invocation, since nothing
  cancels the subscription. The portal returns the handle of request 42 for
  \<^verbatim>\<open>https://example.com/page\<close> and then sends the Response of that request twice: the
  callback is invoked twice for the one \<^verbatim>\<open>run\<close>.
\<close>

theorem callback_twice_counterexample:
  "list_ex (remote_call_returned request_42)
     (run_trace (init example_page (Some done_callback) mainloop) new_portal []) \<and>
   request_42 \<noteq> [] \<and>
   callbacks_fired (run_subs (init example_page (Some done_callback) mainloop) new_portal [])
     [response_signal request_42 0 [], response_signal request_42 0 []] =
     [Callback done_callback mainloop, Callback done_callback mainloop]"
  by (simp add: trace_simps run_unfold init_def scenario_defs callbacks_fired_def
        response_signal_def response_received_def sub_matches_def response_subscription_def)

text \<open>
  C1, amended: when a remote call returns a non-empty handle \<open>h\<close>, \<^verbatim>\<open>run\<close> returns
  normally, has subscribed exactly once, to the Response of the request at \<open>h\<close>, and has
  itself invoked no callback. Afterwards, on a connection that held no other subscription,
  the callback (when one was given) is invoked once for each Response delivered for
  \<open>h\<close> and for no other signal: no delivery, no invocation; \<open>n\<close> deliveries,
  \<open>n\<close> invocations.
\<close>

theorem callback_once_per_response:
  assumes "list_ex (remote_call_returned h) (run_trace l env subs)" and "h \<noteq> []"
  shows "run_outcome l env subs = Inr () \<and>
         filter is_subscribe (run_trace l env subs) =
           [SignalSubscribe (response_subscription l h)] \<and>
         run_subs l env subs = subs @ [response_subscription l h] \<and>
         filter is_callback (run_trace l env subs) = [] \<and>
         callbacks_fired (run_subs l env []) sgs =
           (case callback l of
              None \<Rightarrow> []
            | Some c \<Rightarrow> replicate (length (filter (is_response_for h) sgs)) (Callback c (data l)))"
proof -
  have sub: "run_outcome l env subs' = Inr () \<and>
         filter is_subscribe (run_trace l env subs') =
           [SignalSubscribe (response_subscription l h)] \<and>
         run_subs l env subs' = subs' @ [response_subscription l h] \<and>
         filter is_callback (run_trace l env subs') = []" for subs'
    using assms
    by (cases rule: run_cases[of l env subs]; cases rule: run_cases[of l env subs'])
       (auto simp: trace_simps split: sum.splits os_error.splits)
  from sub[of "[]"] have "run_subs l env [] = [response_subscription l h]" by simp
  with sub[of subs] show ?thesis
    by (simp add: callbacks_fired_one_subscription)
qed

text \<open>
  At \<^verbatim>\<open>/home/user/Documents/report.pdf\<close> with a portal that knows \<^verbatim>\<open>OpenFile\<close>: the
  Response of another request does nothing, the Response of request 42 invokes the callback.
\<close>

theorem callback_once_per_response_witness:
  "callbacks_fired (run_subs (init report_pdf (Some done_callback) mainloop) new_portal [])
     [response_signal ''/org/freedesktop/portal/desktop/request/7'' 0 [],
      response_signal request_42 0 []] =
     [Callback done_callback mainloop] \<and>
   run_subs (init report_pdf (Some done_callback) mainloop) new_portal [] =
     [response_subscription (init report_pdf (Some done_callback) mainloop) request_42]"
proof -
  have called: "list_ex (remote_call_returned request_42)
      (run_trace (init report_pdf (Some done_callback) mainloop) new_portal [])"
    by (simp add: trace_simps run_unfold init_def scenario_defs)
  have handle: "request_42 \<noteq> []"
    by (simp add: request_42_def)
  show ?thesis
    using callback_once_per_response[OF called handle,
        of "[response_signal ''/org/freedesktop/portal/desktop/request/7'' 0 [],
             response_signal request_42 0 []]"]
    by (auto simp add: init_def is_response_for_def response_signal_def request_42_def)
qed

subsection \<open>Which method is called\<close>

text \<open>
  C2, as stated, fails: with a local target whose \<^verbatim>\<open>OpenFile\<close> call succeeds and returns
  an empty handle, \<^verbatim>\<open>run\<close> calls \<^verbatim>\<open>OpenURI\<close> as well, though the target is local
  and the file-handle method did not fail.
\<close>

theorem uri_method_when_counterexample:
  "is_local_file (init report_pdf (Some done_callback) mainloop) \<and>
   \<not> list_ex file_method_unknown
       (run_trace (init report_pdf (Some done_callback) mainloop) file_handleless_portal []) \<and>
   list_ex is_open_uri
     (run_trace (init report_pdf (Some done_callback) mainloop) file_handleless_portal [])"
  by (simp add: trace_simps run_unfold init_def scenario_defs)

text \<open>
  C2, amended: \<^verbatim>\<open>run\<close> calls the URI method if and only if the target is not local, or
  the file-handle method failed with the unknown-method error, or the file-handle method
  returned no handle (\<^verbatim>\<open>None\<close> or the empty string).
\<close>

theorem uri_method_when:
  "list_ex is_open_uri (run_trace l env subs) \<longleftrightarrow>
     (\<not> is_local_file l \<or>
      list_ex file_method_unknown (run_trace l env subs) \<or>
      list_ex file_method_no_handle (run_trace l env subs))"
  by (cases rule: run_cases[of l env subs])
     (auto simp: trace_simps split: sum.splits os_error.splits)

text \<open>
  The three ways into the URI method, and a local file on a portal that knows
  \<^verbatim>\<open>OpenFile\<close>, where it is not called.
\<close>

theorem uri_method_when_witness:
  "list_ex is_open_uri
     (run_trace (init example_page (Some done_callback) mainloop) new_portal []) \<and>
   list_ex is_open_uri
     (run_trace (init report_pdf (Some done_callback) mainloop) old_portal []) \<and>
   list_ex is_open_uri
     (run_trace (init report_pdf (Some done_callback) mainloop) file_handleless_portal []) \<and>
   \<not> list_ex is_open_uri
     (run_trace (init report_pdf (Some done_callback) mainloop) new_portal [])"
proof -
  let ?page = "init example_page (Some done_callback) mainloop"
  let ?pdf = "init report_pdf (Some done_callback) mainloop"
  have "\<not> is_local_file ?page"
    by (simp add: init_def example_page_def)
  moreover have "list_ex file_method_unknown (run_trace ?pdf old_portal [])"
    by (simp add: trace_simps run_unfold init_def scenario_defs)
  moreover have "list_ex file_method_no_handle (run_trace ?pdf file_handleless_portal [])"
    by (simp add: trace_simps run_unfold init_def scenario_defs)
  moreover have "is_local_file ?pdf"
    and "\<not> list_ex file_method_unknown (run_trace ?pdf new_portal [])"
    and "\<not> list_ex file_method_no_handle (run_trace ?pdf new_portal [])"
    by (simp_all add: trace_simps run_unfold init_def scenario_defs)
  ultimately show ?thesis
    using uri_method_when[of ?page new_portal "[]"] uri_method_when[of ?pdf old_portal "[]"]
      uri_method_when[of ?pdf file_handleless_portal "[]"] uri_method_when[of ?pdf new_portal "[]"]
    by blast
qed

text \<open>
  C3, as stated, fails: a remote call may return an empty handle and \<^verbatim>\<open>run\<close> still
  subscribe. \<^verbatim>\<open>OpenFile\<close> returns the empty handle, \<^verbatim>\<open>run\<close> goes on to
  \<^verbatim>\<open>OpenURI\<close>, which returns the handle of request 42; \<^verbatim>\<open>run\<close> subscribes to it and
  the Response invokes the callback.
\<close>

theorem no_handle_counterexample:
  "list_ex remote_call_no_handle
     (run_trace (init report_pdf (Some done_callback) mainloop) file_handleless_portal []) \<and>
   filter is_subscribe
     (run_trace (init report_pdf (Some done_callback) mainloop) file_handleless_portal []) =
     [SignalSubscribe
        (response_subscription (init report_pdf (Some done_callback) mainloop) request_42)] \<and>
   callbacks_fired
     (run_subs (init report_pdf (Some done_callback) mainloop) file_handleless_portal [])
     [response_signal request_42 0 []] =
     [Callback done_callback mainloop]"
  by (simp add: trace_simps run_unfold init_def scenario_defs callbacks_fired_def
        remote_call_no_handle_def
        response_signal_def response_received_def sub_matches_def response_subscription_def)

text \<open>
  C3, amended: when the URI method (the last remote call of every \<^verbatim>\<open>run\<close> that is
  left without a handle) returns an empty or absent handle, \<^verbatim>\<open>run\<close> returns normally
  without subscribing, invokes no callback, and on a connection that held no other
  subscription no signal invokes the callback afterwards.
\<close>

theorem no_handle_no_subscription:
  assumes "list_ex uri_method_no_handle (run_trace l env subs)"
  shows "run_outcome l env subs = Inr () \<and>
         filter is_subscribe (run_trace l env subs) = [] \<and>
         run_subs l env subs = subs \<and>
         filter is_callback (run_trace l env subs) = [] \<and>
         callbacks_fired (run_subs l env []) sgs = []"
proof -
  have "run_outcome l env subs' = Inr () \<and>
         filter is_subscribe (run_trace l env subs') = [] \<and>
         run_subs l env subs' = subs' \<and>
         filter is_callback (run_trace l env subs') = []" for subs'
    using assms
    by (cases rule: run_cases[of l env subs]; cases rule: run_cases[of l env subs'])
       (auto simp: trace_simps split: sum.splits os_error.splits)
  from this[of subs] this[of "[]"] show ?thesis
    by (simp add: callbacks_fired_def)
qed

theorem no_handle_no_subscription_witness:
  "run_outcome (init example_page (Some done_callback) mainloop) handleless_portal [] = Inr () \<and>
   run_subs (init example_page (Some done_callback) mainloop) handleless_portal [] = [] \<and>
   callbacks_fired (run_subs (init example_page (Some done_callback) mainloop) handleless_portal [])
     [response_signal request_42 0 []] = []"
proof -
  have "list_ex uri_method_no_handle
      (run_trace (init example_page (Some done_callback) mainloop) handleless_portal [])"
    by (simp add: trace_simps run_unfold init_def scenario_defs)
  from no_handle_no_subscription[OF this, of "[response_signal request_42 0 []]"]
  show ?thesis by blast
qed

subsection \<open>Failures\<close>



text \<open>
  C5: for a local target whose path was opened, when the file-handle method fails with
  the unknown-method error the URI method is called next, with \<^verbatim>\<open>file://\<close> followed by
  the path; when it fails with any other error, the file-handle call is the only remote
  call and that error leaves \<^verbatim>\<open>run\<close>.
\<close>

theorem unknown_method_falls_back:
  assumes "is_local_file l" and "os_open env (lpath l) = Inr fd"
    and "proxy_OpenFile env fd = Inl e"
  shows "if matches e dbus_error_quark UNKNOWN_METHOD
         then remote_calls (run_trace l env subs) =
                [OpenFile fd (Inl e),
                 OpenURI (''file://'' @ lpath l) (proxy_OpenURI env (''file://'' @ lpath l))]
         else remote_calls (run_trace l env subs) = [OpenFile fd (Inl e)] \<and>
              run_outcome l env subs = Inl (GErr e)"
  using assms
  by (cases rule: run_cases[of l env subs]) (auto simp: trace_simps)

theorem unknown_method_falls_back_witness:
  "remote_calls (run_trace (init report_pdf (Some done_callback) mainloop) old_portal []) =
     [OpenFile 3 (Inl unknown_method_error),
      OpenURI ''file:///home/user/Documents/report.pdf'' (Inr (Some request_42))] \<and>
   remote_calls (run_trace (init report_pdf (Some done_callback) mainloop) refusing_portal []) =
     [OpenFile 3 (Inl access_denied_error)] \<and>
   run_outcome (init report_pdf (Some done_callback) mainloop) refusing_portal [] =
     Inl (GErr access_denied_error)"
proof -
  let ?l = "init report_pdf (Some done_callback) mainloop"
  have loc: "is_local_file ?l"
    by (simp add: init_def report_pdf_def)
  have path: "lpath ?l = ''/home/user/Documents/report.pdf''"
    by (simp add: init_def report_pdf_def)
  have old: "os_open old_portal (lpath ?l) = Inr 3"
    "proxy_OpenFile old_portal 3 = Inl unknown_method_error"
    "proxy_OpenURI old_portal (''file://'' @ lpath ?l) = Inr (Some request_42)"
    by (simp_all add: path old_portal_def local_files_def)
  have refusing: "os_open refusing_portal (lpath ?l) = Inr 3"
    "proxy_OpenFile refusing_portal 3 = Inl access_denied_error"
    by (simp_all add: path refusing_portal_def local_files_def)
  have unknown: "matches unknown_method_error dbus_error_quark UNKNOWN_METHOD"
    and denied: "\<not> matches access_denied_error dbus_error_quark UNKNOWN_METHOD"
    by (simp_all add: matches_def unknown_method_error_def access_denied_error_def
          UNKNOWN_METHOD_def)
  from unknown_method_falls_back[OF loc old(1) old(2), of "[]"] unknown old(3) path
  have "remote_calls (run_trace ?l old_portal []) =
     [OpenFile 3 (Inl unknown_method_error),
      OpenURI ''file:///home/user/Documents/report.pdf'' (Inr (Some request_42))]"
    by simp
  moreover
  from unknown_method_falls_back[OF loc refusing(1) refusing(2), of "[]"] denied
  have "remote_calls (run_trace ?l refusing_portal []) = [OpenFile 3 (Inl access_denied_error)] \<and>
     run_outcome ?l refusing_portal [] = Inl (GErr access_denied_error)"
    by simp
  ultimately show ?thesis by blast
qed

text \<open>
  In terms of what the parser returns: for a target whose scheme is neither empty nor
  \<^verbatim>\<open>file\<close>, \<^verbatim>\<open>run\<close> opens no path and its only remote call is the URI method, with
  the URL string of the parsed target (\<^verbatim>\<open>geturl()\<close>); for a local target, when the path
  component of the parsed target can be opened, the first remote call is the file-handle
  method, with the descriptor of that path component.
\<close>

lemma method_by_parsed_target:
  "(scheme parsed \<noteq> [] \<and> scheme parsed \<noteq> ''file'' \<longrightarrow>
      remote_calls (run_trace (init parsed cb d) env subs) =
        [OpenURI (geturl parsed) (proxy_OpenURI env (geturl parsed))] \<and>
      filter is_os_open (run_trace (init parsed cb d) env subs) = []) \<and>
   ((scheme parsed = [] \<or> scheme parsed = ''file'') \<and> os_open env (path parsed) = Inr fd \<longrightarrow>
      take 1 (remote_calls (run_trace (init parsed cb d) env subs)) =
        [OpenFile fd (proxy_OpenFile env fd)])"
  by (cases rule: run_cases[of "init parsed cb d" env subs])
     (auto simp: trace_simps init_def split: sum.splits)

text \<open>
  C6 says that for every local path that exists the file-handle method is issued first.
  The code does not open the target but the path component of the parsed target, and
  for a target without a scheme the parser ends that component at the first
  \<^verbatim>\<open>#\<close>, \<^verbatim>\<open>?\<close> or \<^verbatim>\<open>;\<close>. The target \<^verbatim>\<open>/home/user/Documents/report#1.pdf\<close> is
  local and the file exists, yet \<^verbatim>\<open>run\<close> opens \<^verbatim>\<open>/home/user/Documents/report\<close>, which
  does not exist: it raises \<^verbatim>\<open>FileNotFoundError\<close> and issues no remote call, so the
  file-handle method is not called for this existing path.
\<close>

theorem existing_path_not_opened:
  "os_open hash_portal (geturl report_1_pdf) = Inr 4 \<and>
   is_local_file (init report_1_pdf (Some done_callback) mainloop) \<and>
   filter is_os_open (run_trace (init report_1_pdf (Some done_callback) mainloop) hash_portal []) =
     [OsOpen ''/home/user/Documents/report''
        (Inl (FileNotFoundError ''No such file or directory''))] \<and>
   run_outcome (init report_1_pdf (Some done_callback) mainloop) hash_portal [] =
     Inl (OSErr (FileNotFoundError ''No such file or directory'')) \<and>
   remote_calls (run_trace (init report_1_pdf (Some done_callback) mainloop) hash_portal []) = []"
  by (simp add: trace_simps run_unfold init_def report_1_pdf_def hash_portal_def hash_files_def
        request_42_def done_callback_def mainloop_def)


text \<open>
  C8: every \<^verbatim>\<open>run\<close> issues at most two remote calls: the file-handle method at most
  once, the URI method at most once, and the file-handle method first when both are
  called. It makes at most one subscription.
\<close>

theorem run_remote_calls_bounded:
  "length (remote_calls (run_trace l env subs)) \<le> 2 \<and>
   length (filter is_open_file (run_trace l env subs)) \<le> 1 \<and>
   length (filter is_open_uri (run_trace l env subs)) \<le> 1 \<and>
   map is_open_file (remote_calls (run_trace l env subs)) \<in> {[], [True], [False], [True, False]} \<and>
   length (filter is_subscribe (run_trace l env subs)) \<le> 1 \<and>
   length (run_subs l env subs) \<le> Suc (length subs)"
  by (cases rule: run_cases[of l env subs]) (auto simp: trace_simps split: sum.splits os_error.splits)

text \<open>
  C10: when the URI method fails, with the unknown-method error or any other, that error
  leaves \<^verbatim>\<open>run\<close>: the failed call is the only URI call and the last event of the run, and
  no subscription is made.
\<close>

theorem uri_method_error_propagates:
  assumes "OpenURI u (Inl e) \<in> set (run_trace l env subs)"
  shows "run_outcome l env subs = Inl (GErr e) \<and>
         filter is_open_uri (run_trace l env subs) = [OpenURI u (Inl e)] \<and>
         last (run_trace l env subs) = OpenURI u (Inl e) \<and>
         filter is_subscribe (run_trace l env subs) = [] \<and>
         run_subs l env subs = subs"
  using assms
  by (cases rule: run_cases[of l env subs]) (auto simp: trace_simps split: sum.splits)

theorem uri_method_error_propagates_witness:
  "run_outcome (init example_page (Some done_callback) mainloop) refusing_portal [] =
     Inl (GErr access_denied_error) \<and>
   run_outcome (init report_pdf (Some done_callback) mainloop) old_refusing_portal [] =
     Inl (GErr unknown_method_error) \<and>
   filter is_open_uri
     (run_trace (init report_pdf (Some done_callback) mainloop) old_refusing_portal []) =
     [OpenURI ''file:///home/user/Documents/report.pdf'' (Inl unknown_method_error)] \<and>
   run_subs (init report_pdf (Some done_callback) mainloop) old_refusing_portal [] = []"
proof -
  let ?page = "init example_page (Some done_callback) mainloop"
  let ?pdf = "init report_pdf (Some done_callback) mainloop"
  have page: "OpenURI ''https://example.com/page'' (Inl access_denied_error)
      \<in> set (run_trace ?page refusing_portal [])"
    by (simp add: trace_simps run_unfold init_def scenario_defs)
  have pdf: "OpenURI ''file:///home/user/Documents/report.pdf'' (Inl unknown_method_error)
      \<in> set (run_trace ?pdf old_refusing_portal [])"
    by (simp add: trace_simps run_unfold init_def scenario_defs)
  from uri_method_error_propagates[OF page] uri_method_error_propagates[OF pdf]
  show ?thesis by blast
qed

end
